theory Spec2Isabelle
  imports Complex_Main "HOL-Library.Sublist"
begin

section \<open>Strings\<close>

text \<open>
  A Python \<open>str\<close> is modelled as a \<open>string\<close> holding its UTF-8 encoding. The operators the
  program uses on strings (\<open>==\<close>, \<open>+\<close>, \<open>in\<close>, \<open>startswith\<close>) agree on code points and on
  their UTF-8 bytes. \<open>str.lower\<close> and \<open>str.strip\<close> are modelled on the ASCII range: the
  letters \<open>A\<close> to \<open>Z\<close> are mapped to \<open>a\<close> to \<open>z\<close>, and the characters Python counts as
  whitespace below 128 (9 to 13 and 28 to 32) are stripped; every other byte is left as it
  is, so case mappings and whitespace of code points above 127 are outside the model.
\<close>

abbreviation nl :: string where
  "nl \<equiv> [CHR 0x0A]"

abbreviation rsquo :: string where
  "rsquo \<equiv> [CHR 0xE2, CHR 0x80, CHR 0x99]"

abbreviation bullet :: string where
  "bullet \<equiv> [CHR 0xE2, CHR 0x80, CHR 0xA2]"

abbreviation ndash :: string where
  "ndash \<equiv> [CHR 0xE2, CHR 0x80, CHR 0x93]"

abbreviation mdash :: string where
  "mdash \<equiv> [CHR 0xE2, CHR 0x80, CHR 0x94]"

abbreviation wave_emoji :: string where
  "wave_emoji \<equiv> [CHR 0xF0, CHR 0x9F, CHR 0x91, CHR 0x8B]"

abbreviation heart_emoji :: string where
  "heart_emoji \<equiv> [CHR 0xF0, CHR 0x9F, CHR 0x92, CHR 0x9C]"

abbreviation smile_emoji :: string where
  "smile_emoji \<equiv> [CHR 0xF0, CHR 0x9F, CHR 0x98, CHR 0x8A]"

abbreviation robot_emoji :: string where
  "robot_emoji \<equiv> [CHR 0xF0, CHR 0x9F, CHR 0xA4, CHR 0x96]"

abbreviation warning_sign :: string where
  "warning_sign \<equiv> [CHR 0xE2, CHR 0x9A, CHR 0xA0]"

abbreviation vs16 :: string where
  "vs16 \<equiv> [CHR 0xEF, CHR 0xB8, CHR 0x8F]"

definition lower_char :: "char \<Rightarrow> char" where
  "lower_char c =
     (let n = (of_char c :: nat) in if 65 \<le> n \<and> n \<le> 90 then char_of (n + 32) else c)"

definition lower :: "string \<Rightarrow> string" where
  "lower s = map lower_char s"

definition isspace :: "char \<Rightarrow> bool" where
  "isspace c = (let n = (of_char c :: nat) in (9 \<le> n \<and> n \<le> 13) \<or> (28 \<le> n \<and> n \<le> 32))"

definition lstrip :: "string \<Rightarrow> string" where
  "lstrip s = dropWhile isspace s"

definition rstrip :: "string \<Rightarrow> string" where
  "rstrip s = rev (dropWhile isspace (rev s))"

definition strip :: "string \<Rightarrow> string" where
  "strip s = rstrip (lstrip s)"

text \<open>\<open>text.startswith(g)\<close> and \<open>g in text\<close>.\<close>

definition startswith :: "string \<Rightarrow> string \<Rightarrow> bool" where
  "startswith text g = prefix g text"

definition str_in :: "string \<Rightarrow> string \<Rightarrow> bool" where
  "str_in g text = sublist g text"

section \<open>safety.py\<close>

definition RED_FLAGS :: "string list" where
  "RED_FLAGS =
     [''seizure'', ''blue lips'', ''unconscious'', ''severe chest pain'',
      ''difficulty breathing'', ''trouble breathing'', ''not responsive'',
      ''stopped breathing'', ''choking'', ''head injury'', ''severe bleeding'',
      ''suicidal'', ''ingested poison'', ''allergic reaction'']"

definition CRISIS_MSG :: string where
  "CRISIS_MSG =
     ''This may be an emergency. I'' @ rsquo @ ''m not a medical professional, but based on what you shared, ''
     @ ''please contact local emergency services immediately or your child'' @ rsquo @ ''s clinician.''"

definition NON_DIAGNOSTIC_PREFACE :: string where
  "NON_DIAGNOSTIC_PREFACE =
     ''I can provide general, caregiver-friendly information about Down syndrome and IDD. ''
     @ ''I can'' @ rsquo @ ''t diagnose, prescribe, or replace professional care.''"

text \<open>
  The loop \<open>for rf in RED_FLAGS: if rf in t: return True, CRISIS_MSG\<close>, followed by
  \<open>return False, ""\<close>.
\<close>

fun scan_red_flags :: "string list \<Rightarrow> string \<Rightarrow> bool \<times> string" where
  "scan_red_flags [] t = (False, '''')"
| "scan_red_flags (rf # rfs) t =
     (if str_in rf t then (True, CRISIS_MSG) else scan_red_flags rfs t)"

text \<open>\<open>text or ""\<close> is \<open>text\<close> itself on every \<open>str\<close>: the only falsy string is the empty one.\<close>

definition check_red_flags :: "string \<Rightarrow> bool \<times> string" where
  "check_red_flags text = (let t = lower (if text \<noteq> '''' then text else '''') in scan_red_flags RED_FLAGS t)"

section \<open>llm_server.py: schemas\<close>

text \<open>
  An entry of \<open>meta.json\<close> is a dictionary; a key that is absent reads as \<open>None\<close> through
  \<open>rec.get(key)\<close>. Scores are 32-bit floats in the program and real numbers here.
\<close>

record chunk =
  rec_title :: "string option"
  rec_authors :: "string option"
  rec_abstract :: "string option"
  rec_year :: "string option"
  rec_url :: "string option"
  rec_source_file :: "string option"
  rec_chunk_id :: "int option"

record Citation =
  title :: "string option"
  authors :: "string option"
  year :: "string option"
  url :: "string option"
  source_file :: "string option"
  chunk_id :: "int option"
  score :: real

record ChatResponse =
  answer :: string
  citations :: "Citation list"

section \<open>llm_server.py: the smalltalk matcher\<close>

datatype category = greetings | gratitude | farewell | how_are_you | capabilities

fun smalltalk_patterns :: "category \<Rightarrow> string set" where
  "smalltalk_patterns greetings = {''hi'', ''hello'', ''hey'', ''good morning'', ''good evening''}"
| "smalltalk_patterns gratitude = {''thanks'', ''thank you'', ''thx''}"
| "smalltalk_patterns farewell = {''bye'', ''goodbye'', ''see you'', ''take care''}"
| "smalltalk_patterns how_are_you =
     {''how are you'', ''how'' @ rsquo @ ''s it going'', ''how are u''}"
| "smalltalk_patterns capabilities =
     {''what can you do'', ''how can you help'', ''who are you'', ''what are you'',
      ''what is your role'', ''help'', ''i need help'', ''support'', ''assist me''}"

text \<open>The dictionary \<open>{"answer": ..., "citations": []}\<close> the matcher returns.\<close>

record smalltalk_result =
  st_answer :: string
  st_citations :: "Citation list"

definition greeting_answer :: string where
  "greeting_answer =
     wave_emoji @ '' Hi there! I'' @ rsquo @ ''m glad you reached out. How can I support you today?''"

definition gratitude_answer :: string where
  "gratitude_answer =
     heart_emoji @ '' You'' @ rsquo @ ''re very welcome. Caring for a child with IDD is a big job''
     @ mdash @ ''you'' @ rsquo @ ''re doing great.''"

definition farewell_answer :: string where
  "farewell_answer =
     wave_emoji @ '' Take care! Remember, you can come back anytime with questions or just to talk.''"

definition how_are_you_answer :: string where
  "how_are_you_answer =
     smile_emoji @ '' Thanks for asking! I'' @ rsquo
     @ ''m here and ready to help with anything about caregiving or resources.''"

definition capabilities_answer :: string where
  "capabilities_answer =
     robot_emoji @ '' I'' @ rsquo @ ''m **IDDCareBot**, here to support caregivers of children with Down Syndrome and other intellectual or ''
     @ ''developmental disabilities (IDD). I can:'' @ nl
     @ ''- Share caregiver-friendly tips and strategies (not medical advice).'' @ nl
     @ ''- Explain information from research in plain language.'' @ nl
     @ ''- Suggest resources you can discuss with your child'' @ rsquo @ ''s providers.'' @ nl @ nl
     @ ''How can I help you today?''"

definition handle_smalltalk :: "string \<Rightarrow> smalltalk_result option" where
  "handle_smalltalk user_input =
     (let text = strip (lower user_input) in
      if \<exists>g \<in> smalltalk_patterns greetings. startswith text g then
        Some \<lparr>st_answer = greeting_answer, st_citations = []\<rparr>
      else if \<exists>g \<in> smalltalk_patterns gratitude. str_in g text then
        Some \<lparr>st_answer = gratitude_answer, st_citations = []\<rparr>
      else if \<exists>g \<in> smalltalk_patterns farewell. startswith text g then
        Some \<lparr>st_answer = farewell_answer, st_citations = []\<rparr>
      else if \<exists>g \<in> smalltalk_patterns how_are_you. str_in g text then
        Some \<lparr>st_answer = how_are_you_answer, st_citations = []\<rparr>
      else if \<exists>g \<in> smalltalk_patterns capabilities. text = g \<or> str_in g text then
        Some \<lparr>st_answer = capabilities_answer, st_citations = []\<rparr>
      else None)"

section \<open>prompts.py\<close>

datatype role = system | user | assistant

record message =
  role :: role
  content :: string

definition SYSTEM_PROMPT :: string where
  "SYSTEM_PROMPT =
     ''You are IDDCareBot, a supportive assistant for caregivers of children with Down Syndrome and other intellectual/''
     @ ''developmental disabilities (IDD). You provide clear, non-judgmental education, tips, and resources in plain language. ''
     @ ''You do not give medical diagnoses. You encourage consulting qualified clinicians.'' @ nl @ nl
     @ ''When you answer, FIRST check the provided context passages. ''
     @ ''Prefer direct quotes or paraphrases grounded in the context. ''
     @ ''If context is insufficient, say so and suggest specific follow-ups (e.g., ask a provider, or request more details).'' @ nl @ nl
     @ ''Citations: After the answer, list sources as bullet points with Title '' @ ndash @ '' Authors (Year). ''
     @ ''Include DOI or PubMed ID links if you are certain they are correct. ''
     @ ''If no reliable DOI or PubMed link is available, provide the citation without a URL. ''
     @ ''Do NOT generate or guess URLs.''"

definition FEWSHOT :: "message list" where
  "FEWSHOT =
    [\<lparr>role = user,
      content = ''My child has trouble focusing during therapy. Any tips?''\<rparr>,
     \<lparr>role = assistant,
      content =
        ''Here are some caregiver-friendly ideas you might consider (these are general tips, not medical advice):'' @ nl
        @ bullet @ '' Keep sessions short and consistent; build routine.'' @ nl
        @ bullet @ '' Use visual schedules and break tasks into steps.'' @ nl
        @ bullet @ '' Offer choices and positive reinforcement.'' @ nl
        @ bullet @ '' Minimize distractions (noise, clutter).'' @ nl @ nl
        @ ''If focus remains challenging, discuss options with your child'' @ rsquo @ ''s therapist or pediatrician.'' @ nl @ nl
        @ ''**Sources**:'' @ nl @ bullet @ '' Therapy engagement in IDD '' @ ndash @ '' Author et al. (2020)''\<rparr>,
     \<lparr>role = user,
      content = ''Sometimes my child refuses to eat new foods. What can I do?''\<rparr>,
     \<lparr>role = assistant,
      content =
        ''Feeding challenges are very common. Some general ideas you can try:'' @ nl
        @ bullet @ '' Introduce new foods slowly, alongside familiar favorites.'' @ nl
        @ bullet @ '' Make mealtimes relaxed, not stressful.'' @ nl
        @ bullet @ '' Offer small portions and let your child explore the food first (touch, smell).'' @ nl
        @ bullet @ '' Use positive reinforcement when your child tries something new.'' @ nl @ nl
        @ ''If your child is losing weight or seems limited to very few foods, please consult a pediatrician or feeding specialist.'' @ nl @ nl
        @ ''**Sources**:'' @ nl @ bullet @ '' Feeding problems in children with Down Syndrome '' @ ndash @ '' Field et al. (2003)'' @ nl
        @ bullet @ '' Pediatric feeding disorders '' @ ndash @ '' Silverman & Tarbell (2009)''\<rparr>,
     \<lparr>role = user,
      content = ''My child gets very frustrated when routines change. How can I help?''\<rparr>,
     \<lparr>role = assistant,
      content =
        ''Many children with IDD find comfort in routines. To ease transitions:'' @ nl
        @ bullet @ '' Use visual schedules or calendars to show upcoming changes.'' @ nl
        @ bullet @ '' Give plenty of warning before a transition.'' @ nl
        @ bullet @ '' Practice small changes gradually.'' @ nl
        @ bullet @ '' Offer comfort items (toys, music) during transitions.'' @ nl @ nl
        @ ''If meltdowns are frequent or severe, talk with your child'' @ rsquo @ ''s behavioral therapist for tailored strategies.'' @ nl @ nl
        @ ''**Sources**:'' @ nl @ bullet @ '' Transition supports for children with developmental disabilities '' @ ndash @ '' Dettmer et al. (2000)''\<rparr>,
     \<lparr>role = user,
      content = ''My child has trouble sleeping through the night. Any suggestions?''\<rparr>,
     \<lparr>role = assistant,
      content =
        ''Sleep difficulties are common in children with Down Syndrome. Helpful ideas include:'' @ nl
        @ bullet @ '' Keep a consistent bedtime routine.'' @ nl
        @ bullet @ '' Limit screens and caffeine before bed.'' @ nl
        @ bullet @ '' Make the bedroom calm, dark, and quiet.'' @ nl
        @ bullet @ '' Use a bedtime ritual (story, soft music, dim lights).'' @ nl @ nl
        @ ''If sleep problems continue, ask your pediatrician to check for medical issues (such as sleep apnea, which is more common in Down Syndrome).'' @ nl @ nl
        @ ''**Sources**:'' @ nl @ bullet @ '' Sleep disorders in Down Syndrome '' @ ndash @ '' Breslin et al. (2014)''\<rparr>,
     \<lparr>role = user,
      content = ''How can I encourage my child to communicate more?''\<rparr>,
     \<lparr>role = assistant,
      content =
        ''Encouraging communication can be done in everyday ways:'' @ nl
        @ bullet @ '' Model simple words and short phrases.'' @ nl
        @ bullet @ '' Use gestures, pictures, or sign language alongside speech.'' @ nl
        @ bullet @ '' Follow your child'' @ rsquo @ ''s lead'' @ mdash @ ''talk about what they are interested in.'' @ nl
        @ bullet @ '' Celebrate all communication attempts (sounds, gestures, words).'' @ nl @ nl
        @ ''For more structured support, consider consulting a speech-language pathologist.'' @ nl @ nl
        @ ''**Sources**:'' @ nl @ bullet @ '' Early communication interventions for children with Down Syndrome '' @ ndash @ '' Kumin (2003)''\<rparr>]"

section \<open>Errors\<close>

text \<open>
  The exceptions that can leave the functions below: \<open>IndexError\<close> from subscripting the
  metadata list, \<open>AssertionError\<close> from the argument checks of the index search, the three
  failures of the OpenAI branch (\<open>RequestError\<close> when the transport fails or times out,
  \<open>HTTPStatusError\<close> from \<open>raise_for_status\<close>, \<open>KeyError\<close> when the body lacks
  \<open>choices[0].message.content\<close>) and \<open>OllamaError\<close> from \<open>ollama.chat\<close>.
\<close>

datatype error =
  IndexError
| AssertionError
| RequestError
| HTTPStatusError int
| KeyError
| OllamaError

section \<open>The embedder and the vector index\<close>

text \<open>
  \<open>SentenceTransformer.encode(sentences, normalize_embeddings=False)\<close>: the model maps every
  sentence to a vector, and only when \<open>normalize_embeddings\<close> is set the vectors are divided
  by their Euclidean norm (\<open>torch.nn.functional.normalize\<close>, which divides by
  \<open>max(norm, 1e-12)\<close>). The model itself is a parameter.
\<close>

type_synonym vec = "real list"

definition l2_norm :: "vec \<Rightarrow> real" where
  "l2_norm v = sqrt (\<Sum>x\<leftarrow>v. x * x)"

definition normalize :: "vec \<Rightarrow> vec" where
  "normalize v = map (\<lambda>x. x / max (l2_norm v) (1 / 10 ^ 12)) v"

definition encode :: "(string \<Rightarrow> vec) \<Rightarrow> string list \<Rightarrow> bool \<Rightarrow> vec list" where
  "encode model sentences normalize_embeddings =
     (let embeddings = map model sentences in
      if normalize_embeddings then map normalize embeddings else embeddings)"

text \<open>
  \<open>faiss.IndexFlatIP\<close>: the stored vectors, searched exhaustively by inner product.
  \<open>search\<close> checks its arguments (\<open>assert d == self.d\<close>, \<open>assert k > 0\<close>) and always returns
  \<open>k\<close> distances and \<open>k\<close> labels, best first; when the index holds fewer than \<open>k\<close> vectors the
  remaining places keep the label \<open>-1\<close> and the lowest float. The order among equal scores is
  by position here (the library leaves it open).
\<close>

record IndexFlatIP =
  index_d :: nat
  index_xb :: "vec list"

definition ntotal :: "IndexFlatIP \<Rightarrow> nat" where
  "ntotal ix = length (index_xb ix)"

definition inner_product :: "vec \<Rightarrow> vec \<Rightarrow> real" where
  "inner_product x y = (\<Sum>(a, b)\<leftarrow>zip x y. a * b)"

definition FLT_LOWEST :: real where
  "FLT_LOWEST = - 340282346638528859811704183484516925440"

definition search :: "IndexFlatIP \<Rightarrow> vec \<Rightarrow> int \<Rightarrow> error + (real list \<times> int list)" where
  "search ix x k =
     (if length x \<noteq> index_d ix \<or> k \<le> 0 then Inl AssertionError
      else
        let scored = map (\<lambda>i. (inner_product x (index_xb ix ! i), int i)) [0..<ntotal ix];
            best = take (nat k) (sort_key (\<lambda>(s, i). - s) scored);
            res = best @ replicate (nat k - length best) (FLT_LOWEST, - 1)
        in Inr (map fst res, map snd res))"

text \<open>ingest.py: \<open>embs = embedder.encode(texts, ..., normalize_embeddings=True)\<close>; these are
  the vectors added to the index.\<close>

definition embs :: "(string \<Rightarrow> vec) \<Rightarrow> string list \<Rightarrow> vec list" where
  "embs embedder texts = encode embedder texts True"

section \<open>Configuration and collaborators\<close>

text \<open>The request of \<open>client.post(url, headers=..., json=...)\<close>; the Azure body has no
  \<open>model\<close> entry.\<close>

record http_request =
  req_url :: string
  req_headers :: "(string \<times> string) list"
  req_model :: "string option"
  req_messages :: "message list"
  req_temperature :: real
  req_max_tokens :: int

text \<open>Of a response the program reads the status and \<open>choices[0].message.content\<close> of the
  JSON body (\<open>None\<close> when the body has no such entry).\<close>

record http_response =
  status_code :: int
  body_content :: "string option"

datatype provider_call =
  OpenAIPost http_request
| AzurePost http_request
| OllamaChat string "message list"

text \<open>
  The module-level configuration read from the environment (\<open>os.getenv\<close> gives \<open>None\<close> for an
  unset variable), the lazily loaded singletons (embedding model, index, metadata) and the two
  completion providers, each a function from the request to what the call returns or raises.
\<close>

record world =
  TOP_K :: int
  MAX_TOKENS :: int
  OPENAI_API_KEY :: "string option"
  OPENAI_MODEL :: string
  OLLAMA_MODEL :: "string option"
  get_embedder :: "string \<Rightarrow> vec"
  get_index :: IndexFlatIP
  get_meta :: "chunk list"
  openai_post :: "http_request \<Rightarrow> error + http_response"
  ollama_chat :: "string \<Rightarrow> message list \<Rightarrow> error + string"

text \<open>Truth value of \<open>os.getenv(...)\<close>: \<open>None\<close> and the empty string are falsy.\<close>

fun truthy :: "string option \<Rightarrow> bool" where
  "truthy None = False"
| "truthy (Some s) = (s \<noteq> '''')"

section \<open>llm_server.py: retrieval\<close>

definition embed :: "world \<Rightarrow> string \<Rightarrow> vec" where
  "embed w text = (let emb = encode (get_embedder w) [text] False in hd emb)"

text \<open>Python's \<open>xs[i]\<close>: a negative index counts from the end, and an index outside the list
  raises \<open>IndexError\<close>.\<close>

definition subscript :: "'a list \<Rightarrow> int \<Rightarrow> error + 'a" where
  "subscript xs i =
     (if 0 \<le> i \<and> i < int (length xs) then Inr (xs ! nat i)
      else if - int (length xs) \<le> i \<and> i < 0 then Inr (xs ! nat (int (length xs) + i))
      else Inl IndexError)"

record hit =
  hit_score :: real
  hit_text :: string
  hit_meta :: chunk

text \<open>\<open>rec.get(key, default)\<close>.\<close>

fun get_or :: "'a option \<Rightarrow> 'a \<Rightarrow> 'a" where
  "get_or None dflt = dflt"
| "get_or (Some v) dflt = v"

text \<open>The loop \<open>for idx, score in zip(I[0], D[0])\<close> of \<open>retrieve\<close>, \<open>out\<close> being the list built
  so far.\<close>

fun retrieve_loop :: "chunk list \<Rightarrow> (int \<times> real) list \<Rightarrow> hit list \<Rightarrow> error + hit list" where
  "retrieve_loop meta [] out = Inr out"
| "retrieve_loop meta ((idx, sc) # rest) out =
     (case subscript meta idx of
        Inl e \<Rightarrow> Inl e
      | Inr rec \<Rightarrow>
          retrieve_loop meta rest
            (out @ [\<lparr>hit_score = sc, hit_text = get_or (rec_abstract rec) '''', hit_meta = rec\<rparr>]))"

definition retrieve :: "world \<Rightarrow> string \<Rightarrow> int \<Rightarrow> error + hit list" where
  "retrieve w query top_k =
     (let q_emb = embed w query in
      case search (get_index w) q_emb top_k of
        Inl e \<Rightarrow> Inl e
      | Inr (D, I) \<Rightarrow> retrieve_loop (get_meta w) (zip I D) [])"

fun join :: "string \<Rightarrow> string list \<Rightarrow> string" where
  "join sep [] = ''''"
| "join sep [b] = b"
| "join sep (b # bs) = b @ sep @ join sep bs"

definition format_block :: "hit \<Rightarrow> string" where
  "format_block s =
     (let m = hit_meta s;
          header = ''Title: '' @ get_or (rec_title m) ''N/A''
                   @ '' | Authors: '' @ get_or (rec_authors m) ''N/A''
                   @ '' | Year: '' @ get_or (rec_year m) ''''
      in ''['' @ header @ '']'' @ nl @ hit_text s)"

definition format_context :: "hit list \<Rightarrow> string" where
  "format_context snippets = join (nl @ nl) (map format_block snippets)"

section \<open>llm_server.py: prompt and completion\<close>

definition build_messages :: "string \<Rightarrow> string \<Rightarrow> message list" where
  "build_messages query context =
     (let msgs = [\<lparr>role = system, content = SYSTEM_PROMPT\<rparr>] @ FEWSHOT in
      msgs @
        [\<lparr>role = user,
          content =
            ''Caregiver question: '' @ query @ nl @ nl
            @ ''Context (use to ground your answer):'' @ nl @ context @ nl @ nl
            @ ''Remember: '' @ NON_DIAGNOSTIC_PREFACE\<rparr>])"

definition NO_PROVIDER :: string where
  "NO_PROVIDER =
     warning_sign @ vs16
     @ '' No LLM provider configured. Please set OPENAI_API_KEY or OLLAMA_MODEL in .env.''"

text \<open>\<open>Response.raise_for_status\<close> returns on a status from 200 to 299 and raises otherwise.\<close>

definition is_success :: "http_response \<Rightarrow> bool" where
  "is_success r = (200 \<le> status_code r \<and> status_code r \<le> 299)"

definition chat_completion :: "http_response \<Rightarrow> error + string" where
  "chat_completion r =
     (if \<not> is_success r then Inl (HTTPStatusError (status_code r))
      else case body_content r of None \<Rightarrow> Inl KeyError | Some c \<Rightarrow> Inr (strip c))"

definition openai_request :: "world \<Rightarrow> message list \<Rightarrow> http_request" where
  "openai_request w messages =
     \<lparr>req_url = ''https://api.openai.com/v1/chat/completions'',
      req_headers = [(''Authorization'', ''Bearer '' @ get_or (OPENAI_API_KEY w) '''')],
      req_model = Some (OPENAI_MODEL w),
      req_messages = messages,
      req_temperature = 2 / 10,
      req_max_tokens = MAX_TOKENS w\<rparr>"

text \<open>\<open>call_llm\<close> returns the provider calls it made, in order, next to its result.\<close>

definition call_llm :: "world \<Rightarrow> message list \<Rightarrow> provider_call list \<times> (error + string)" where
  "call_llm w messages =
     (if truthy (OPENAI_API_KEY w) then
        ([OpenAIPost (openai_request w messages)],
         case openai_post w (openai_request w messages) of
           Inl e \<Rightarrow> Inl e
         | Inr r \<Rightarrow> chat_completion r)
      else if truthy (OLLAMA_MODEL w) then
        ([OllamaChat (get_or (OLLAMA_MODEL w) '''') messages],
         case ollama_chat w (get_or (OLLAMA_MODEL w) '''') messages of
           Inl e \<Rightarrow> Inl e
         | Inr c \<Rightarrow> Inr (strip c))
      else ([], Inr NO_PROVIDER))"

section \<open>llm_server.py: the endpoint\<close>

definition citation_of :: "hit \<Rightarrow> Citation" where
  "citation_of h =
     (let m = hit_meta h in
      \<lparr>title = rec_title m, authors = rec_authors m, year = rec_year m, url = rec_url m,
       source_file = rec_source_file m, chunk_id = rec_chunk_id m, score = hit_score h\<rparr>)"

definition chat :: "world \<Rightarrow> string \<Rightarrow> provider_call list \<times> (error + ChatResponse)" where
  "chat w query =
     (let (flagged, crisis) = check_red_flags query in
      case handle_smalltalk query of
        Some res \<Rightarrow> ([], Inr \<lparr>answer = st_answer res, citations = st_citations res\<rparr>)
      | None \<Rightarrow>
          (case retrieve w query (TOP_K w) of
             Inl e \<Rightarrow> ([], Inl e)
           | Inr hits \<Rightarrow>
               let ctx = format_context hits;
                   msgs = build_messages query ctx;
                   (calls, result) = call_llm w msgs
               in (case result of
                     Inl e \<Rightarrow> (calls, Inl e)
                   | Inr ans \<Rightarrow>
                       let ans = (if flagged then crisis @ nl @ nl @ ans else ans)
                       in (calls, Inr \<lparr>answer = ans, citations = map citation_of hits\<rparr>))))"

section \<open>server.py: the completion call with the Azure branch\<close>

text \<open>
  \<open>server.py\<close> is the standalone variant of the same service: it has no smalltalk matcher, and
  its \<open>call_llm\<close> has one more branch, between the OpenAI and the Ollama one, taken when the
  Azure key, endpoint and deployment are all set.
\<close>

record azure =
  AZURE_KEY :: "string option"
  AZURE_ENDPOINT :: "string option"
  AZURE_DEPLOYMENT :: "string option"
  azure_post :: "http_request \<Rightarrow> error + http_response"

definition azure_request :: "world \<Rightarrow> azure \<Rightarrow> message list \<Rightarrow> http_request" where
  "azure_request w az messages =
     \<lparr>req_url = get_or (AZURE_ENDPOINT az) '''' @ ''/openai/deployments/''
                @ get_or (AZURE_DEPLOYMENT az) ''''
                @ ''/chat/completions?api-version=2024-06-01'',
      req_headers = [(''api-key'', get_or (AZURE_KEY az) '''')],
      req_model = None,
      req_messages = messages,
      req_temperature = 2 / 10,
      req_max_tokens = MAX_TOKENS w\<rparr>"

definition server_call_llm ::
  "world \<Rightarrow> azure \<Rightarrow> message list \<Rightarrow> provider_call list \<times> (error + string)" where
  "server_call_llm w az messages =
     (if truthy (OPENAI_API_KEY w) then
        ([OpenAIPost (openai_request w messages)],
         case openai_post w (openai_request w messages) of
           Inl e \<Rightarrow> Inl e
         | Inr r \<Rightarrow> chat_completion r)
      else if truthy (AZURE_KEY az) \<and> truthy (AZURE_ENDPOINT az) \<and> truthy (AZURE_DEPLOYMENT az) then
        ([AzurePost (azure_request w az messages)],
         case azure_post az (azure_request w az messages) of
           Inl e \<Rightarrow> Inl e
         | Inr r \<Rightarrow> chat_completion r)
      else if truthy (OLLAMA_MODEL w) then
        ([OllamaChat (get_or (OLLAMA_MODEL w) '''') messages],
         case ollama_chat w (get_or (OLLAMA_MODEL w) '''') messages of
           Inl e \<Rightarrow> Inl e
         | Inr c \<Rightarrow> Inr (strip c))
      else ([], Inr NO_PROVIDER))"

section \<open>The matcher as the specification words it\<close>





section \<open>Cosine similarity\<close>

text \<open>The similarity the specification names: the inner product divided by the two norms.\<close>

definition cosine_similarity :: "vec \<Rightarrow> vec \<Rightarrow> real" where
  "cosine_similarity x y = inner_product x y / (l2_norm x * l2_norm y)"

section \<open>An example deployment\<close>

text \<open>A corpus of two chunks with unit vectors, no completion provider configured.\<close>

definition example_meta :: "chunk list" where
  "example_meta =
     [\<lparr>rec_title = Some ''Sleep disorders in Down Syndrome'', rec_authors = Some ''Breslin et al.'',
       rec_abstract = Some ''Sleep problems are common.'', rec_year = Some ''2014'',
       rec_url = None, rec_source_file = Some ''sleep.csv'', rec_chunk_id = Some 0\<rparr>,
      \<lparr>rec_title = Some ''Pediatric feeding disorders'', rec_authors = Some ''Silverman'',
       rec_abstract = Some ''Feeding challenges.'', rec_year = None,
       rec_url = None, rec_source_file = Some ''feeding.csv'', rec_chunk_id = Some 0\<rparr>]"

definition example_world :: world where
  "example_world =
     \<lparr>TOP_K = 2, MAX_TOKENS = 700, OPENAI_API_KEY = None, OPENAI_MODEL = ''gpt-4o-mini'',
      OLLAMA_MODEL = None,
      get_embedder = (\<lambda>text. [1, 0]),
      get_index = \<lparr>index_d = 2, index_xb = [[0, 1], [1, 0]]\<rparr>,
      get_meta = example_meta,
      openai_post = (\<lambda>request. Inl RequestError),
      ollama_chat = (\<lambda>model messages. Inl OllamaError)\<rparr>"

section \<open>Evaluation rules and basic facts\<close>

lemmas str_eval = lower_def lower_char_def char_of_def bit_0 strip_def lstrip_def rstrip_def
  isspace_def startswith_def str_in_def sublist_Cons_right


















section \<open>The safety filter\<close>



section \<open>The smalltalk matcher\<close>




section \<open>The prompt builder\<close>

lemma sublist_mid: "sublist q (a @ q @ b)"
  unfolding sublist_def by blast

text \<open>
  C8. For every query and context, \<open>build_messages\<close> returns the system message, then the
  few-shot sequence \<open>FEWSHOT\<close> (a constant, five user/assistant pairs, none of them a system
  message), then one final user message whose content contains the query, the context and the
  non-diagnostic reminder.
\<close>

theorem build_messages_structure:
  "\<exists>c. build_messages query context
         = \<lparr>role = system, content = SYSTEM_PROMPT\<rparr> # FEWSHOT @ [\<lparr>role = user, content = c\<rparr>]
       \<and> sublist query c \<and> sublist context c \<and> sublist NON_DIAGNOSTIC_PREFACE c
       \<and> filter (\<lambda>m. role m = system) (build_messages query context)
           = [\<lparr>role = system, content = SYSTEM_PROMPT\<rparr>]
       \<and> map role FEWSHOT
           = [user, assistant, user, assistant, user, assistant, user, assistant, user, assistant]
       \<and> length (build_messages query context) = 12"
proof -
  let ?c = "''Caregiver question: '' @ query @ nl @ nl
            @ ''Context (use to ground your answer):'' @ nl @ context @ nl @ nl
            @ ''Remember: '' @ NON_DIAGNOSTIC_PREFACE"
  have shape: "build_messages query context
         = \<lparr>role = system, content = SYSTEM_PROMPT\<rparr> # FEWSHOT @ [\<lparr>role = user, content = ?c\<rparr>]"
    by (simp add: build_messages_def)
  have roles: "map role FEWSHOT
           = [user, assistant, user, assistant, user, assistant, user, assistant, user, assistant]"
    by (simp add: FEWSHOT_def)
  have "\<forall>r \<in> set (map role FEWSHOT). r \<noteq> system"
    unfolding roles by simp
  then have nosys: "filter (\<lambda>m. role m = system) FEWSHOT = []"
    by (auto simp: filter_empty_conv)
  have one: "filter (\<lambda>m. role m = system) (build_messages query context)
           = [\<lparr>role = system, content = SYSTEM_PROMPT\<rparr>]"
    by (simp add: shape nosys)
  have len: "length (build_messages query context) = 12"
    using arg_cong [OF roles, of length] by (simp add: shape)
  have q: "sublist query ?c"
    by (rule sublist_mid)
  have "sublist context ((''Caregiver question: '' @ query @ nl @ nl
            @ ''Context (use to ground your answer):'' @ nl) @ context @ (nl @ nl
            @ ''Remember: '' @ NON_DIAGNOSTIC_PREFACE))"
    by (rule sublist_mid)
  then have x: "sublist context ?c" by simp
  have "sublist NON_DIAGNOSTIC_PREFACE ((''Caregiver question: '' @ query @ nl @ nl
            @ ''Context (use to ground your answer):'' @ nl @ context @ nl @ nl
            @ ''Remember: '') @ NON_DIAGNOSTIC_PREFACE @ [])"
    by (rule sublist_mid)
  then have r: "sublist NON_DIAGNOSTIC_PREFACE ?c" by simp
  show ?thesis
    by (rule exI [of _ ?c]) (intro conjI shape q x r one roles len)
qed

section \<open>The completion gateway and the endpoint\<close>







text \<open>The \<open>call_llm\<close> of \<open>server.py\<close> is the same function unless the Azure key, endpoint and
  deployment are all set and the OpenAI key is not; then the Azure request is the one call
  made, before Ollama is looked at, and a bad status raises there too.\<close>

lemma server_call_llm_eq:
  "truthy (OPENAI_API_KEY w)
     \<or> \<not> (truthy (AZURE_KEY az) \<and> truthy (AZURE_ENDPOINT az) \<and> truthy (AZURE_DEPLOYMENT az))
   \<Longrightarrow> server_call_llm w az messages = call_llm w messages"
  by (auto simp add: server_call_llm_def call_llm_def)

lemma server_call_llm_azure:
  assumes "\<not> truthy (OPENAI_API_KEY w)"
    and "truthy (AZURE_KEY az)" "truthy (AZURE_ENDPOINT az)" "truthy (AZURE_DEPLOYMENT az)"
  shows "fst (server_call_llm w az messages) = [AzurePost (azure_request w az messages)]"
    and "azure_post az (azure_request w az messages) = Inr r \<Longrightarrow> \<not> is_success r \<Longrightarrow>
           snd (server_call_llm w az messages) = Inl (HTTPStatusError (status_code r))"
  using assms by (simp_all add: server_call_llm_def chat_completion_def)



text \<open>
  C1. A text that is both flagged by the safety filter and matched by the smalltalk matcher:
  \<open>chat\<close> computes the flag, then returns the canned smalltalk answer as it is, without the
  crisis message.
\<close>

theorem smalltalk_answer_without_crisis_message:
  "check_red_flags ''hello, my son is not responsive'' = (True, CRISIS_MSG)
   \<and> chat w ''hello, my son is not responsive''
       = ([], Inr \<lparr>answer = greeting_answer, citations = []\<rparr>)
   \<and> \<not> sublist CRISIS_MSG greeting_answer"
proof -
  have a: "check_red_flags ''hello, my son is not responsive'' = (True, CRISIS_MSG)"
    by (simp add: check_red_flags_def RED_FLAGS_def str_eval)
  have b: "handle_smalltalk ''hello, my son is not responsive''
             = Some \<lparr>st_answer = greeting_answer, st_citations = []\<rparr>"
    by (simp add: handle_smalltalk_def str_eval)
  have c: "chat w ''hello, my son is not responsive''
       = ([], Inr \<lparr>answer = greeting_answer, citations = []\<rparr>)"
    by (simp add: chat_def a b)
  have shorter: "length greeting_answer < length CRISIS_MSG"
    by (simp add: greeting_answer_def CRISIS_MSG_def)
  have d: "\<not> sublist CRISIS_MSG greeting_answer"
  proof
    assume "sublist CRISIS_MSG greeting_answer"
    then obtain ps ss where "greeting_answer = ps @ CRISIS_MSG @ ss"
      by (auto simp add: sublist_def)
    then have "length greeting_answer = length (ps @ CRISIS_MSG @ ss)"
      by (rule arg_cong)
    with shorter show False by simp
  qed
  from a c d show ?thesis by (intro conjI)
qed

section \<open>Retrieval beyond the corpus size\<close>

lemma subscript_in_range:
  assumes "- int (length xs) \<le> i" and "i < int (length xs)"
  shows "\<exists>x. subscript xs i = Inr x"
  using assms by (simp add: subscript_def)

lemma retrieve_loop_length:
  assumes "\<forall>p \<in> set ps. - int (length meta) \<le> fst p \<and> fst p < int (length meta)"
  shows "\<exists>hits. retrieve_loop meta ps out = Inr hits \<and> length hits = length out + length ps"
  using assms
proof (induction ps arbitrary: out)
  case Nil
  then show ?case by simp
next
  case (Cons p ps)
  obtain idx sc where p: "p = (idx, sc)" by (cases p)
  from Cons.prems p obtain r where r: "subscript meta idx = Inr r"
    using subscript_in_range [of meta idx] by auto
  from Cons.prems have "\<forall>p \<in> set ps. - int (length meta) \<le> fst p \<and> fst p < int (length meta)"
    by simp
  from Cons.IH [OF this,
      of "out @ [\<lparr>hit_score = sc, hit_text = get_or (rec_abstract r) '''', hit_meta = r\<rparr>]"]
  show ?case
    by (simp add: p r)
qed

lemma search_shape:
  assumes "length x = index_d ix" and "0 < k"
  shows "\<exists>D I. search ix x k = Inr (D, I) \<and> length D = nat k \<and> length I = nat k
           \<and> (\<forall>i \<in> set I. - 1 \<le> i \<and> i < int (ntotal ix))"
proof -
  define scored where
    "scored = map (\<lambda>i. (inner_product x (index_xb ix ! i), int i)) [0..<ntotal ix]"
  define best where "best = take (nat k) (sort_key (\<lambda>(s, i). - s) scored)"
  define res where "res = best @ replicate (nat k - length best) (FLT_LOWEST, - 1)"
  have eq: "search ix x k = Inr (map fst res, map snd res)"
    using assms by (simp add: search_def Let_def res_def best_def scored_def)
  have "length best \<le> nat k"
    by (simp add: best_def)
  then have len: "length res = nat k"
    by (simp add: res_def)
  have "set best \<subseteq> set (sort_key (\<lambda>(s, i). - s) scored)"
    unfolding best_def by (rule set_take_subset)
  then have sub: "set best \<subseteq> set scored"
    by simp
  have "\<forall>p \<in> set scored. 0 \<le> snd p \<and> snd p < int (ntotal ix)"
    by (auto simp add: scored_def)
  with sub have inb: "\<forall>p \<in> set best. 0 \<le> snd p \<and> snd p < int (ntotal ix)"
    by blast
  have pairs: "- 1 \<le> snd p \<and> snd p < int (ntotal ix)" if "p \<in> set res" for p
  proof (cases "p \<in> set best")
    case True
    with inb show ?thesis by force
  next
    case False
    with that have "p = (FLT_LOWEST, - 1)" and "length best < nat k"
      by (auto simp add: res_def set_replicate_conv_if split: if_splits)
    moreover have "length best = min (ntotal ix) (nat k)"
      by (simp add: best_def scored_def)
    ultimately show ?thesis by simp
  qed
  have lab: "\<forall>i \<in> set (map snd res). - 1 \<le> i \<and> i < int (ntotal ix)"
  proof
    fix i
    assume "i \<in> set (map snd res)"
    then obtain p where "i = snd p" and "p \<in> set res"
      unfolding set_map by (rule imageE)
    with pairs show "- 1 \<le> i \<and> i < int (ntotal ix)"
      by blast
  qed
  have lD: "length (map fst res) = nat k" and lI: "length (map snd res) = nat k"
    using len by simp_all
  show ?thesis
    by (rule exI [of _ "map fst res"], rule exI [of _ "map snd res"])
       (intro conjI eq lD lI lab)
qed

text \<open>On an index that holds fewer vectors than asked for, \<open>retrieve\<close> still returns \<open>top_k\<close>
  hits: the padding labels \<open>-1\<close> subscript the metadata list from its end.\<close>

lemma retrieve_beyond_corpus:
  assumes dim: "length (embed w query) = index_d (get_index w)"
    and lockstep: "length (get_meta w) = ntotal (get_index w)"
    and nonempty: "0 < ntotal (get_index w)"
    and beyond: "int (ntotal (get_index w)) < top_k"
  shows "\<exists>hits. retrieve w query top_k = Inr hits \<and> length hits = nat top_k"
proof -
  from beyond have "0 < top_k" by simp
  from search_shape [OF dim this] obtain D I where
    s: "search (get_index w) (embed w query) top_k = Inr (D, I)"
    and lD: "length D = nat top_k" and lI: "length I = nat top_k"
    and lab: "\<forall>i \<in> set I. - 1 \<le> i \<and> i < int (ntotal (get_index w))"
    by blast
  have "\<forall>p \<in> set (zip I D). - int (length (get_meta w)) \<le> fst p \<and> fst p < int (length (get_meta w))"
  proof
    fix p assume "p \<in> set (zip I D)"
    then have "fst p \<in> set I"
      by (metis prod.collapse set_zip_leftD)
    with lab nonempty show "- int (length (get_meta w)) \<le> fst p \<and> fst p < int (length (get_meta w))"
      unfolding lockstep by fastforce
  qed
  from retrieve_loop_length [OF this, of "[]"] obtain hits where
    "retrieve_loop (get_meta w) (zip I D) [] = Inr hits" and "length hits = length (zip I D)"
    by auto
  then show ?thesis
    by (simp add: retrieve_def s lD lI)
qed

lemma example_search_beyond:
  "search (get_index example_world) [1, 0] 3 = Inr ([1, 0, FLT_LOWEST], [1, 0, - 1])"
  by (simp add: search_def example_world_def ntotal_def inner_product_def upt_rec
      numeral_3_eq_3)

text \<open>
  C2. On the example corpus of two chunks, \<open>retrieve\<close> with \<open>top_k = 3\<close> returns three hits, not
  two: the third is the last metadata record once more, with the lowest float as its score.
\<close>

theorem retrieve_top_k_beyond_corpus:
  "length (get_meta example_world) = 2
   \<and> ntotal (get_index example_world) = 2
   \<and> retrieve example_world query 3 =
       Inr [\<lparr>hit_score = 1, hit_text = ''Feeding challenges.'', hit_meta = example_meta ! 1\<rparr>,
            \<lparr>hit_score = 0, hit_text = ''Sleep problems are common.'', hit_meta = example_meta ! 0\<rparr>,
            \<lparr>hit_score = FLT_LOWEST, hit_text = ''Feeding challenges.'',
             hit_meta = example_meta ! 1\<rparr>]"
proof -
  have e: "embed example_world query = [1, 0]"
    by (simp add: embed_def encode_def example_world_def)
  have m: "get_meta example_world = example_meta"
    by (simp add: example_world_def)
  have a: "length (get_meta example_world) = 2"
    by (simp add: m example_meta_def)
  have b: "ntotal (get_index example_world) = 2"
    by (simp add: ntotal_def example_world_def)
  have c: "retrieve example_world query 3 =
       Inr [\<lparr>hit_score = 1, hit_text = ''Feeding challenges.'', hit_meta = example_meta ! 1\<rparr>,
            \<lparr>hit_score = 0, hit_text = ''Sleep problems are common.'', hit_meta = example_meta ! 0\<rparr>,
            \<lparr>hit_score = FLT_LOWEST, hit_text = ''Feeding challenges.'',
             hit_meta = example_meta ! 1\<rparr>]"
    by (simp add: retrieve_def e example_search_beyond m)
       (simp add: example_meta_def subscript_def)
  from a b c show ?thesis by (intro conjI)
qed

section \<open>The embedder\<close>

lemma sum_list_scaled_squares:
  "(\<Sum>x\<leftarrow>map (\<lambda>x. x / n) v. x * x) = (\<Sum>x\<leftarrow>v. x * x) / (n * n)" for n :: real
  by (induction v) (simp_all add: add_divide_distrib)

text \<open>What ingestion stores: a vector whose norm is at least \<open>1e-12\<close> comes out of
  \<open>normalize\<close> with norm one (over the reals).\<close>

lemma l2_norm_normalize:
  assumes "1 / 10 ^ 12 \<le> l2_norm v"
  shows "l2_norm (normalize v) = 1"
proof -
  have pos: "0 < l2_norm v"
    using assms by (rule less_le_trans [rotated]) simp
  have m: "max (l2_norm v) (1 / 10 ^ 12) = l2_norm v"
    using assms by (simp add: max_def)
  have nonneg: "0 \<le> (\<Sum>x\<leftarrow>v. x * x)"
    by (rule sum_list_nonneg) auto
  then have sq: "l2_norm v * l2_norm v = (\<Sum>x\<leftarrow>v. x * x)"
    by (simp add: l2_norm_def)
  have "(\<Sum>x\<leftarrow>normalize v. x * x) = (\<Sum>x\<leftarrow>v. x * x) / (l2_norm v * l2_norm v)"
    by (simp only: normalize_def m sum_list_scaled_squares)
  also have "\<dots> = 1"
    using pos by (simp add: sq [symmetric])
  finally show ?thesis
    by (simp add: l2_norm_def [of "normalize v"])
qed

lemma embs_unit_length:
  assumes "v \<in> set (embs embedder texts)"
    and "\<forall>t \<in> set texts. 1 / 10 ^ 12 \<le> l2_norm (embedder t)"
  shows "l2_norm v = 1"
  using assms by (auto simp add: embs_def encode_def l2_norm_normalize)

lemma l2_norm_3_4: "l2_norm [3, 4] = 5"
proof -
  have "l2_norm [3, 4] = sqrt (5\<^sup>2)"
    by (simp add: l2_norm_def power2_eq_square)
  then show ?thesis
    by simp
qed

lemma l2_norm_unit_3_4: "l2_norm [3 / 5, 4 / 5] = 1"
  by (simp add: l2_norm_def)

text \<open>
  C3. \<open>embed\<close> returns the model's vector as it is, for every model and text: it calls
  \<open>encode\<close> without \<open>normalize_embeddings\<close>. For a model whose vector for the text is
  \<open>(3, 4)\<close>, the query vector has norm 5, while ingestion stores \<open>(3/5, 4/5)\<close> for the same
  text; their inner product is 5 and their cosine similarity is 1.
\<close>

theorem embed_not_normalised:
  "embed w text = get_embedder w text
   \<and> l2_norm (embed (example_world\<lparr>get_embedder := (\<lambda>t. [3, 4])\<rparr>) ''sleep'') = 5
   \<and> embs (\<lambda>t. [3, 4]) [''sleep''] = [[3 / 5, 4 / 5]]
   \<and> inner_product (embed (example_world\<lparr>get_embedder := (\<lambda>t. [3, 4])\<rparr>) ''sleep'')
        (hd (embs (\<lambda>t. [3, 4]) [''sleep''])) = 5
   \<and> cosine_similarity (embed (example_world\<lparr>get_embedder := (\<lambda>t. [3, 4])\<rparr>) ''sleep'')
        (hd (embs (\<lambda>t. [3, 4]) [''sleep''])) = 1"
proof -
  let ?w = "example_world\<lparr>get_embedder := (\<lambda>t. [3, 4])\<rparr>"
  have raw: "embed v s = get_embedder v s" for v s
    by (simp add: embed_def encode_def)
  have q: "embed ?w ''sleep'' = [3, 4]"
    by (simp add: raw)
  have stored: "embs (\<lambda>t. [3, 4]) [''sleep''] = [[3 / 5, 4 / 5]]"
    by (simp add: embs_def encode_def normalize_def l2_norm_3_4)
  have ip: "inner_product [3, 4] [3 / 5, 4 / 5] = 5"
    by (simp add: inner_product_def)
  have cos: "cosine_similarity [3, 4] [3 / 5, 4 / 5] = 1"
    by (simp add: cosine_similarity_def ip l2_norm_3_4 l2_norm_unit_3_4)
  show ?thesis
    using raw [of w "text"] by (simp add: q stored l2_norm_3_4 ip cos)
qed

end
